theory Spec2Isabelle
  imports Complex_Main
begin

section \<open>Python values and exceptions\<close>

text \<open>
  The adapter (\<^verbatim>\<open>schedulerlocal/domain/libvirtconnector.py\<close>) and the control loop
  (\<^verbatim>\<open>schedulerlocal/schedulerlocal.py\<close>) are embedded as total HOL functions.  Every
  exception that can leave one of the embedded methods is a value of \<open>error\<close>; a method
  that can raise returns \<open>error + 'a\<close> with \<open>Inl\<close> for the exception.

  Python's true division \<^verbatim>\<open>a / b\<close> yields a float.  The embedding computes the exact
  quotient in \<open>rat\<close>: rounding to the nearest float is monotone and leaves \<open>0\<close> and
  \<open>1\<close> fixed, so the comparisons with \<open>0\<close> and \<open>1\<close> made here come out the same.
\<close>

datatype error =
    LibvirtError
  | ConsumerNotAlived
  | ZeroDivisionError
  | KeyError
  | IndexError

definition bind_err :: "error + 'a \<Rightarrow> ('a \<Rightarrow> error + 'b) \<Rightarrow> error + 'b" where
  "bind_err m f = (case m of Inl e \<Rightarrow> Inl e | Inr x \<Rightarrow> f x)"

text \<open>\<^verbatim>\<open>d[k]\<close> on a dict, \<^verbatim>\<open>xs[0]\<close> on a list, \<^verbatim>\<open>a / b\<close> on numbers.\<close>

definition dict_get :: "('k \<rightharpoonup> 'v) \<Rightarrow> 'k \<Rightarrow> error + 'v" where
  "dict_get d k = (case d k of None \<Rightarrow> Inl KeyError | Some v \<Rightarrow> Inr v)"

definition list_first :: "'a list \<Rightarrow> error + 'a" where
  "list_first xs = (case xs of [] \<Rightarrow> Inl IndexError | x # _ \<Rightarrow> Inr x)"

definition py_truediv :: "rat \<Rightarrow> rat \<Rightarrow> error + rat" where
  "py_truediv a b = (if b = 0 then Inl ZeroDivisionError else Inr (a / b))"


section \<open>The pinning template\<close>

text \<open>
  \<^verbatim>\<open>build_cpu_pinning(cpu_list, host_config)\<close> receives a list of \<^verbatim>\<open>ServerCPU\<close> objects
  and reads \<^verbatim>\<open>get_cpu_id()\<close> of each.  The class is not part of the adapter; all that
  is used of it is the id, the number of a host core, a natural number.
\<close>

record ServerCPU =
  cpu_id :: nat

definition get_cpu_id :: "ServerCPU \<Rightarrow> nat" where
  "get_cpu_id c = cpu_id c"

text \<open>
  The loop \<^verbatim>\<open>for cpu in cpu_list: template_pin[cpu.get_cpu_id()] = True\<close>.  An
  assignment at an index that the list does not have raises \<^verbatim>\<open>IndexError\<close>, which
  ends the loop and the call.
\<close>

fun pin_cpus :: "bool list \<Rightarrow> ServerCPU list \<Rightarrow> error + bool list" where
  "pin_cpus template_pin [] = Inr template_pin"
| "pin_cpus template_pin (cpu # cpu_list) =
     (if get_cpu_id cpu < length template_pin
      then pin_cpus (template_pin[get_cpu_id cpu := True]) cpu_list
      else Inl IndexError)"

definition build_cpu_pinning :: "ServerCPU list \<Rightarrow> nat \<Rightarrow> error + bool list" where
  "build_cpu_pinning cpu_list host_config =
     pin_cpus (replicate host_config False) cpu_list"

section \<open>The hypervisor as the adapter sees it\<close>

text \<open>
  The adapter talks to libvirt through a connection and through \<^verbatim>\<open>virDomain\<close> handles.
  A handle is modelled by what its methods answer at the time of the call.  The two
  statistics queries can raise \<^verbatim>\<open>libvirt.libvirtError\<close> (the source catches exactly
  that); \<open>None\<close> stands for the raise.  The counters libvirt reports are unsigned
  64-bit quantities, natural numbers here.  A pin mask is a tuple of booleans, one per
  host core; \<^verbatim>\<open>vcpuPinInfo()\<close> answers one mask per vCPU.  The descriptive queries of
  a handle and the two writes (\<^verbatim>\<open>pinVcpu\<close>, \<^verbatim>\<open>defineXML\<close>) are taken to answer: the
  source has no handler around them, and a \<^verbatim>\<open>libvirtError\<close> from one of them would
  leave the method at that call.

  The descriptor document of a VM is kept abstract, apart from the one piece of metadata
  the adapter looks for: the CPU oversubscription ratio, which may be missing.
\<close>

record xml_desc =
  xml_text :: string
  oversub_cpu :: "rat option"

record virDomain =
  UUIDString :: string
  domain_name :: string
  maxMemory :: nat
  maxVcpus :: nat
  vcpuPinInfo :: "bool list list"
  XMLDesc :: xml_desc
  getCPUStats :: "(string \<rightharpoonup> nat) list option"
  memoryStats :: "(string \<rightharpoonup> nat) option"

type_synonym connection = "string \<rightharpoonup> virDomain"

text \<open>\<^verbatim>\<open>conn.lookupByUUIDString(uuid)\<close> raises when the hypervisor knows no such domain.\<close>

definition lookupByUUIDString :: "connection \<Rightarrow> string \<Rightarrow> error + virDomain" where
  "lookupByUUIDString conn u = (case conn u of None \<Rightarrow> Inl LibvirtError | Some d \<Rightarrow> Inr d)"

section \<open>The resource entity\<close>

text \<open>
  Modelled from the spec: the class \<^verbatim>\<open>DomainEntity\<close> (\<^verbatim>\<open>domainentity.py\<close>) is not among
  the sources.  The spec's data model gives its fields: uuid, name, memory capacity,
  vCPU count, pin state, CPU oversubscription ratio, and \<open>last_sample\<close>, an optional
  tuple \<open>(epoch_ns, total, system, user)\<close> that is absent until the first successful
  usage read.  The adapter uses the constructor and the methods \<^verbatim>\<open>get_uuid\<close>,
  \<^verbatim>\<open>get_cpu\<close>, \<^verbatim>\<open>has_time\<close>, \<^verbatim>\<open>get_time\<close> and \<^verbatim>\<open>set_time\<close>.
\<close>

type_synonym sample = "int \<times> nat \<times> nat \<times> nat"

record DomainEntity =
  ent_uuid :: string
  ent_name :: string
  ent_mem :: nat
  ent_cpu :: nat
  ent_cpu_pin :: "bool list list"
  ent_cpu_ratio :: rat
  last_sample :: "sample option"

definition new_DomainEntity ::
    "string \<Rightarrow> string \<Rightarrow> nat \<Rightarrow> nat \<Rightarrow> bool list list \<Rightarrow> rat \<Rightarrow> DomainEntity" where
  "new_DomainEntity u n m c p r =
     \<lparr>ent_uuid = u, ent_name = n, ent_mem = m, ent_cpu = c, ent_cpu_pin = p,
      ent_cpu_ratio = r, last_sample = None\<rparr>"

definition get_uuid :: "DomainEntity \<Rightarrow> string" where
  "get_uuid vm = ent_uuid vm"

definition get_cpu :: "DomainEntity \<Rightarrow> nat" where
  "get_cpu vm = ent_cpu vm"

definition has_time :: "DomainEntity \<Rightarrow> bool" where
  "has_time vm = (last_sample vm \<noteq> None)"

definition get_time :: "DomainEntity \<Rightarrow> sample" where
  "get_time vm = the (last_sample vm)"

definition set_time :: "int \<Rightarrow> nat \<Rightarrow> nat \<Rightarrow> nat \<Rightarrow> DomainEntity \<Rightarrow> DomainEntity" where
  "set_time epoch_ns total_t system_t user_t vm =
     vm\<lparr>last_sample := Some (epoch_ns, total_t, system_t, user_t)\<rparr>"

section \<open>The descriptor's metadata\<close>

text \<open>
  Modelled from the spec: the class \<^verbatim>\<open>xmlDomainMetaData\<close> (\<^verbatim>\<open>libvirtxmlmodifier.py\<close>) is
  not among the sources.  The spec says what the adapter relies on: the oversubscription
  metadata is read from the descriptor; if it is absent, a default ratio is generated
  and the descriptor is to be rewritten with it.  The default value itself is not given
  anywhere, so it is the parameter \<open>dflt\<close>.
\<close>

record xmlDomainMetaData =
  xml_doc :: xml_desc
  xml_cpu_ratio :: rat
  xml_updated :: bool

definition convert_to_object :: "rat \<Rightarrow> xml_desc \<Rightarrow> xmlDomainMetaData" where
  "convert_to_object dflt xml_as_str =
     (case oversub_cpu xml_as_str of
        Some r \<Rightarrow> \<lparr>xml_doc = xml_as_str, xml_cpu_ratio = r, xml_updated = False\<rparr>
      | None \<Rightarrow> \<lparr>xml_doc = xml_as_str\<lparr>oversub_cpu := Some dflt\<rparr>, xml_cpu_ratio = dflt,
                 xml_updated = True\<rparr>)"

definition updated :: "xmlDomainMetaData \<Rightarrow> bool" where
  "updated xml_manager = xml_updated xml_manager"

definition convert_to_str_xml :: "xmlDomainMetaData \<Rightarrow> xml_desc" where
  "convert_to_str_xml xml_manager = xml_doc xml_manager"

definition get_oversub_ratios :: "xmlDomainMetaData \<Rightarrow> (string \<rightharpoonup> rat)" where
  "get_oversub_ratios xml_manager = [''cpu'' \<mapsto> xml_cpu_ratio xml_manager]"

section \<open>The adapter's state\<close>

text \<open>
  \<^verbatim>\<open>self.cache_entity\<close> maps a uuid to a \<^verbatim>\<open>DomainEntity\<close> object.  Python hands out
  references: the entity a caller holds and the entity in the cache are one object, and
  \<^verbatim>\<open>set_time\<close> mutates it in place.  So the objects live in a heap (a list, a reference
  being an index; a new object is appended), and the cache maps a uuid to a reference.
  What the adapter does to the outside is recorded in order: the calls on the handle,
  the descriptor writes (\<^verbatim>\<open>conn.defineXML\<close>) and the printed lines.
\<close>

type_synonym ref = nat

datatype event =
    Call string
  | DefineXML xml_desc
  | Print "string list"

record adapter =
  cache_entity :: "string \<rightharpoonup> ref"
  heap :: "DomainEntity list"
  events :: "event list"

definition emit :: "event list \<Rightarrow> adapter \<Rightarrow> adapter" where
  "emit es s = s\<lparr>events := events s @ es\<rparr>"

definition convert_to_entitydomain ::
    "rat \<Rightarrow> virDomain \<Rightarrow> bool \<Rightarrow> adapter \<Rightarrow> ref \<times> adapter" where
  "convert_to_entitydomain dflt virDomain force_update s =
     (let uuid = UUIDString virDomain;
          s1 = emit [Call ''UUIDString''] s
      in if \<not> force_update \<and> cache_entity s1 uuid \<noteq> None
         then (the (cache_entity s1 uuid), s1)
         else
           let name = domain_name virDomain;
               mem = maxMemory virDomain;
               cpu = maxVcpus virDomain;
               cpu_pin = vcpuPinInfo virDomain;
               xml_manager = convert_to_object dflt (XMLDesc virDomain);
               s2 = emit [Call ''name'', Call ''maxMemory'', Call ''maxVcpus'',
                          Call ''vcpuPinInfo'', Call ''XMLDesc''] s1;
               s3 = (if updated xml_manager
                     then emit [DefineXML (convert_to_str_xml xml_manager),
                                Print [''Warning, no oversubscription found on domain'', name,
                                       '': defaults were generated'']] s2
                     else s2);
               cpu_ratio = the (get_oversub_ratios xml_manager ''cpu'');
               r = length (heap s3)
           in (r, s3\<lparr>cache_entity := (cache_entity s3)(uuid \<mapsto> r),
                     heap := heap s3 @ [new_DomainEntity uuid name mem cpu cpu_pin cpu_ratio]\<rparr>))"

definition cache_purge :: "adapter \<Rightarrow> adapter" where
  "cache_purge s = s\<lparr>cache_entity := Map.empty\<rparr>"

text \<open>
  Reading the record of effects: the descriptor writes, the printed lines and the calls
  on the handle among a list of events, and the events a call added to the record.
\<close>

fun descriptor_writes :: "event list \<Rightarrow> xml_desc list" where
  "descriptor_writes [] = []"
| "descriptor_writes (DefineXML x # es) = x # descriptor_writes es"
| "descriptor_writes (_ # es) = descriptor_writes es"

fun warnings :: "event list \<Rightarrow> string list list" where
  "warnings [] = []"
| "warnings (Print l # es) = l # warnings es"
| "warnings (_ # es) = warnings es"

fun handle_calls :: "event list \<Rightarrow> string list" where
  "handle_calls [] = []"
| "handle_calls (Call m # es) = m # handle_calls es"
| "handle_calls (_ # es) = handle_calls es"

definition new_events :: "adapter \<Rightarrow> adapter \<Rightarrow> event list" where
  "new_events s s' = drop (length (events s)) (events s')"

text \<open>
  The reference the cache holds for a uuid, if it holds one, is a reference to an object
  of the heap.  Python has no other references.
\<close>

definition cached_ref_valid :: "adapter \<Rightarrow> string \<Rightarrow> bool" where
  "cached_ref_valid s u =
     (case cache_entity s u of None \<Rightarrow> True | Some r \<Rightarrow> r < length (heap s))"

section \<open>Applying a pinning template\<close>

text \<open>
  The first loop of \<^verbatim>\<open>update_cpu_pinning\<close> looks for a vCPU whose mask differs from the
  template and stops at the first one; the second issues \<^verbatim>\<open>pinVcpu(vcpu, template_pin)\<close>
  for \<^verbatim>\<open>vcpu\<close> in \<^verbatim>\<open>range(len(vm_pin))\<close>.  The result is the list of the writes issued,
  in order.
\<close>

fun update_needed :: "bool list list \<Rightarrow> bool list \<Rightarrow> bool" where
  "update_needed [] template_pin = False"
| "update_needed (vcpu_pin # vm_pin) template_pin =
     (if vcpu_pin \<noteq> template_pin then True else update_needed vm_pin template_pin)"

fun pin_vcpus :: "nat list \<Rightarrow> bool list \<Rightarrow> (nat \<times> bool list) list" where
  "pin_vcpus [] template_pin = []"
| "pin_vcpus (vcpu # rest) template_pin = (vcpu, template_pin) # pin_vcpus rest template_pin"

definition update_cpu_pinning ::
    "connection \<Rightarrow> DomainEntity \<Rightarrow> bool list \<Rightarrow> error + (nat \<times> bool list) list" where
  "update_cpu_pinning conn vm template_pin =
     bind_err (lookupByUUIDString conn (get_uuid vm)) (\<lambda>virDomain.
       let vm_pin = vcpuPinInfo virDomain
       in if update_needed vm_pin template_pin
          then Inr (pin_vcpus [0..<length vm_pin] template_pin)
          else Inr [])"

section \<open>Usage telemetry\<close>

text \<open>
  \<open>epoch_ns\<close> is what \<^verbatim>\<open>time.time_ns()\<close> answers in the call.  The result of a call that
  returns is the value returned (\<open>None\<close> is Python's \<^verbatim>\<open>None\<close>) and the entity as the
  call leaves it.  A call that raises leaves the entity as it was: \<^verbatim>\<open>set_time\<close> is the
  last statement before the \<^verbatim>\<open>return\<close>.
\<close>

definition get_usage_cpu ::
    "connection \<Rightarrow> int \<Rightarrow> DomainEntity \<Rightarrow> error + (rat option \<times> DomainEntity)" where
  "get_usage_cpu conn epoch_ns vm =
     bind_err (lookupByUUIDString conn (get_uuid vm)) (\<lambda>virDomain.
     bind_err (case getCPUStats virDomain of
                 None \<Rightarrow> Inl ConsumerNotAlived
               | Some stats \<Rightarrow> Inr stats) (\<lambda>stats.
     bind_err (list_first stats) (\<lambda>stats0.
     bind_err (dict_get stats0 ''cpu_time'') (\<lambda>total.
     bind_err (dict_get stats0 ''system_time'') (\<lambda>system.
     bind_err (dict_get stats0 ''user_time'') (\<lambda>user.
     bind_err (if has_time vm
               then (case get_time vm of (prev_epoch, prev_total, prev_system, prev_user) \<Rightarrow>
                     bind_err (py_truediv (of_int (int total - int prev_total))
                                          (of_int (epoch_ns - prev_epoch))) (\<lambda>cpu_usage.
                     bind_err (py_truediv cpu_usage (of_nat (get_cpu vm))) (\<lambda>cpu_usage_norm.
                     Inr (Some (if cpu_usage_norm > 1 then 1 else cpu_usage_norm)))))
               else Inr None) (\<lambda>cpu_usage_norm.
     Inr (cpu_usage_norm, set_time epoch_ns total system user vm))))))))"

definition get_usage_mem :: "connection \<Rightarrow> DomainEntity \<Rightarrow> error + rat" where
  "get_usage_mem conn vm =
     bind_err (lookupByUUIDString conn (get_uuid vm)) (\<lambda>virDomain.
     bind_err (case memoryStats virDomain of
                 None \<Rightarrow> Inl ConsumerNotAlived
               | Some stats \<Rightarrow> Inr stats) (\<lambda>stats.
     bind_err (dict_get stats ''rss'') (\<lambda>rss.
     bind_err (dict_get stats ''actual'') (\<lambda>actual.
     bind_err (py_truediv (of_nat rss) (of_nat actual)) (\<lambda>usage.
     if usage > 1 then Inr 1 else Inr usage)))))"

text \<open>
  \<open>get_usage_cpu\<close> on the object behind a reference \<open>r\<close> into the heap: the heap holds
  the entity as the call leaves it.
\<close>

definition get_usage_cpu_at ::
    "connection \<Rightarrow> int \<Rightarrow> ref \<Rightarrow> adapter \<Rightarrow> error + (rat option \<times> adapter)" where
  "get_usage_cpu_at conn epoch_ns r s =
     bind_err (get_usage_cpu conn epoch_ns (heap s ! r)) (\<lambda>(usage, vm).
       Inr (usage, s\<lparr>heap := (heap s)[r := vm]\<rparr>))"

section \<open>The control loop\<close>




section \<open>Concrete inputs\<close>

text \<open>
  A running domain with two vCPUs on a host of four cores, the same domain once it has
  stopped (both statistics queries raise), an entity that has no sample yet and one that
  holds a sample.
\<close>

definition running_domain :: virDomain where
  "running_domain =
     \<lparr>UUIDString = ''u1'', domain_name = ''vm1'', maxMemory = 1048576, maxVcpus = 2,
      vcpuPinInfo = [[True, True, False, False], [True, False, False, False]],
      XMLDesc = \<lparr>xml_text = ''domain'', oversub_cpu = None\<rparr>,
      getCPUStats = Some [[''cpu_time'' \<mapsto> 1000000000, ''system_time'' \<mapsto> 10,
                           ''user_time'' \<mapsto> 20]],
      memoryStats = Some [''actual'' \<mapsto> 1024, ''rss'' \<mapsto> 2048]\<rparr>"

definition stopped_domain :: virDomain where
  "stopped_domain = running_domain\<lparr>getCPUStats := None, memoryStats := None\<rparr>"

definition fresh_entity :: DomainEntity where
  "fresh_entity = new_DomainEntity ''u1'' ''vm1'' 1048576 2 [] 1"

definition sampled_entity :: DomainEntity where
  "sampled_entity = set_time 1000000000 5000000000 0 0 fresh_entity"

text \<open>
  The adapter as \<^verbatim>\<open>__init__\<close> leaves it, and an adapter whose cache holds the entity
  with a sample.
\<close>

definition empty_adapter :: adapter where
  "empty_adapter = \<lparr>cache_entity = Map.empty, heap = [], events = []\<rparr>"

definition sampled_adapter :: adapter where
  "sampled_adapter = \<lparr>cache_entity = [''u1'' \<mapsto> 0], heap = [sampled_entity], events = []\<rparr>"


section \<open>Properties of the pinning template\<close>

lemma pin_cpus_in_range:
  "\<forall>c \<in> set cpu_list. get_cpu_id c < length t \<Longrightarrow>
   \<exists>t'. pin_cpus t cpu_list = Inr t' \<and> length t' = length t \<and>
     (\<forall>i < length t. t' ! i = (t ! i \<or> i \<in> get_cpu_id ` set cpu_list))"
proof (induction cpu_list arbitrary: t)
  case Nil
  then show ?case by simp
next
  case (Cons c cs)
  let ?u = "t[get_cpu_id c := True]"
  from Cons.prems have c: "get_cpu_id c < length t"
    and cs: "\<forall>k \<in> set cs. get_cpu_id k < length ?u" by simp_all
  from Cons.IH [OF cs] obtain t' where t': "pin_cpus ?u cs = Inr t'"
    "length t' = length t"
    "\<forall>i < length t. t' ! i = (?u ! i \<or> i \<in> get_cpu_id ` set cs)" by auto
  have "\<forall>i < length t. t' ! i = (t ! i \<or> i \<in> get_cpu_id ` set (c # cs))"
  proof (intro allI impI)
    fix i assume i: "i < length t"
    with t'(3) have "t' ! i = (?u ! i \<or> i \<in> get_cpu_id ` set cs)" by blast
    also have "?u ! i = (t ! i \<or> i = get_cpu_id c)"
      using i c by (auto simp: nth_list_update)
    finally show "t' ! i = (t ! i \<or> i \<in> get_cpu_id ` set (c # cs))" by auto
  qed
  with t'(1,2) c show ?case by simp
qed

lemma pin_cpus_out_of_range:
  "\<exists>c \<in> set cpu_list. length t \<le> get_cpu_id c \<Longrightarrow> pin_cpus t cpu_list = Inl IndexError"
proof (induction cpu_list arbitrary: t)
  case Nil
  then show ?case by simp
next
  case (Cons c cs)
  show ?case
  proof (cases "get_cpu_id c < length t")
    case False
    then show ?thesis by simp
  next
    case True
    with Cons.prems have "\<exists>k \<in> set cs. length (t[get_cpu_id c := True]) \<le> get_cpu_id k"
      by auto
    from Cons.IH [OF this] True show ?thesis by simp
  qed
qed

text \<open>
  Claim C5.  \<open>build_cpu_pinning\<close> is a function of its two arguments alone.  When every
  id of the authorised list is below \<open>host_config\<close>, it returns a vector of length
  \<open>host_config\<close> that is true exactly at the ids of the list.  When some id is
  \<open>host_config\<close> or more, it raises \<open>IndexError\<close>: nothing is truncated silently.
\<close>

theorem build_cpu_pinning_template:
  "((\<forall>c \<in> set cpu_list. get_cpu_id c < host_config) \<longrightarrow>
      (\<exists>t. build_cpu_pinning cpu_list host_config = Inr t \<and> length t = host_config \<and>
         (\<forall>i < host_config. t ! i = (i \<in> get_cpu_id ` set cpu_list)))) \<and>
   ((\<exists>c \<in> set cpu_list. host_config \<le> get_cpu_id c) \<longrightarrow>
      build_cpu_pinning cpu_list host_config = Inl IndexError)"
proof (intro conjI impI)
  assume "\<forall>c \<in> set cpu_list. get_cpu_id c < host_config"
  then have "\<forall>c \<in> set cpu_list. get_cpu_id c < length (replicate host_config False)"
    by simp
  from pin_cpus_in_range [OF this]
  show "\<exists>t. build_cpu_pinning cpu_list host_config = Inr t \<and> length t = host_config \<and>
         (\<forall>i < host_config. t ! i = (i \<in> get_cpu_id ` set cpu_list))"
    by (auto simp: build_cpu_pinning_def)
next
  assume "\<exists>c \<in> set cpu_list. host_config \<le> get_cpu_id c"
  then have "\<exists>c \<in> set cpu_list. length (replicate host_config False) \<le> get_cpu_id c"
    by simp
  from pin_cpus_out_of_range [OF this]
  show "build_cpu_pinning cpu_list host_config = Inl IndexError"
    by (simp add: build_cpu_pinning_def)
qed

theorem build_cpu_pinning_template_witness:
  "build_cpu_pinning [\<lparr>cpu_id = 2\<rparr>, \<lparr>cpu_id = 5\<rparr>] 8 =
     Inr [False, False, True, False, False, True, False, False] \<and>
   build_cpu_pinning [\<lparr>cpu_id = 2\<rparr>, \<lparr>cpu_id = 8\<rparr>] 8 = Inl IndexError"
proof -
  let ?l = "[\<lparr>cpu_id = 2\<rparr>, \<lparr>cpu_id = 5\<rparr>]"
  have a: "\<forall>c \<in> set ?l. get_cpu_id c < 8" by (simp add: get_cpu_id_def)
  from build_cpu_pinning_template [of ?l 8] a
  obtain t where t: "build_cpu_pinning ?l 8 = Inr t" "length t = 8"
    "\<forall>i < 8. t ! i = (i \<in> get_cpu_id ` set ?l)" by blast
  have "t = [False, False, True, False, False, True, False, False]"
  proof (rule nth_equalityI)
    show "length t = length [False, False, True, False, False, True, False, False]"
      using t(2) by simp
  next
    fix i assume "i < length t"
    then have i: "i < 8" using t(2) by simp
    then have "i \<in> {0, 1, 2, 3, 4, 5, 6, 7}" by auto
    then show "t ! i = [False, False, True, False, False, True, False, False] ! i"
      using t(3) i by (auto simp: get_cpu_id_def)
  qed
  with t(1) have first: "build_cpu_pinning ?l 8 = Inr [False, False, True, False, False, True, False, False]"
    by simp
  have b: "\<exists>c \<in> set [\<lparr>cpu_id = 2\<rparr>, \<lparr>cpu_id = 8\<rparr>]. 8 \<le> get_cpu_id c"
    by (simp add: get_cpu_id_def)
  from build_cpu_pinning_template [of "[\<lparr>cpu_id = 2\<rparr>, \<lparr>cpu_id = 8\<rparr>]" 8] b
  have "build_cpu_pinning [\<lparr>cpu_id = 2\<rparr>, \<lparr>cpu_id = 8\<rparr>] 8 = Inl IndexError" by blast
  with first show ?thesis by simp
qed

section \<open>Properties of the usage telemetry\<close>

lemmas usage_defs =
  get_usage_cpu_def get_usage_mem_def bind_err_def lookupByUUIDString_def list_first_def
  dict_get_def py_truediv_def has_time_def get_time_def get_cpu_def set_time_def get_uuid_def

lemmas example_defs =
  running_domain_def stopped_domain_def fresh_entity_def sampled_entity_def new_DomainEntity_def

text \<open>
  Claim C1.  The docstring of \<^verbatim>\<open>get_usage_cpu\<close> promises a usage in \<open>[0;1]\<close>, and the
  claim asks for it whatever the sign of the deltas.  The code clamps from above only.
  The entity \<open>sampled_entity\<close> holds a sample with a total of \<open>5000000000\<close> ns taken at
  epoch \<open>1000000000\<close>; the domain now reports a total of \<open>1000000000\<close> ns (its counter
  started again from zero with the VM, while the cache kept the entity under the same
  uuid) and the clock reads \<open>2000000000\<close>.  The call returns \<open>- 2\<close>.
\<close>

theorem get_usage_cpu_negative:
  "get_usage_cpu [''u1'' \<mapsto> running_domain] 2000000000 sampled_entity =
     Inr (Some (- 2), set_time 2000000000 1000000000 10 20 sampled_entity)"
  by (simp add: usage_defs example_defs)

text \<open>
  What does hold: a returned usage never exceeds \<open>1\<close>, and it is not negative when
  neither the counter nor the clock went backwards between the two samples.
\<close>

lemma get_usage_cpu_le_1:
  assumes "get_usage_cpu conn epoch_ns vm = Inr (Some v, vm')"
  shows "v \<le> 1"
  using assms
  by (auto simp: usage_defs split: sum.splits option.splits list.splits if_splits prod.splits)


lemma get_usage_cpu_nonneg:
  assumes "get_usage_cpu conn epoch_ns vm = Inr (Some v, vm')"
    and "last_sample vm = Some (prev_epoch, prev_total, prev_system, prev_user)"
    and "last_sample vm' = Some (epoch_ns', t, sy, u)"
    and "prev_total \<le> t" and "prev_epoch \<le> epoch_ns"
  shows "0 \<le> v \<and> v \<le> 1"
  using assms
  by (auto simp: usage_defs split: sum.splits option.splits list.splits if_splits prod.splits)

lemma get_usage_cpu_no_sample:
  assumes "\<not> has_time vm"
    and "lookupByUUIDString conn (get_uuid vm) = Inr d"
    and "getCPUStats d = Some (st # rest)"
    and "st ''cpu_time'' = Some t" and "st ''system_time'' = Some sy"
    and "st ''user_time'' = Some u"
  shows "get_usage_cpu conn epoch_ns vm = Inr (None, set_time epoch_ns t sy u vm)"
  using assms by (simp add: usage_defs)

text \<open>
  Claim C8.  An entity without a sample, a VM whose handle the lookup returns and whose
  CPU statistics are read (a list whose first dict has the three counters): the call
  does not raise, it returns \<^verbatim>\<open>None\<close>, and the entity now holds the sample
  \<open>(epoch_ns, total, system, user)\<close> of this read.
\<close>

theorem get_usage_cpu_first_call:
  assumes "\<not> has_time vm"
    and "lookupByUUIDString conn (get_uuid vm) = Inr d"
    and "getCPUStats d = Some (st # rest)"
    and "st ''cpu_time'' = Some t" and "st ''system_time'' = Some sy"
    and "st ''user_time'' = Some u"
  shows "get_usage_cpu conn epoch_ns vm = Inr (None, set_time epoch_ns t sy u vm) \<and>
         has_time (set_time epoch_ns t sy u vm) \<and>
         get_time (set_time epoch_ns t sy u vm) = (epoch_ns, t, sy, u)"
proof -
  have "has_time (set_time epoch_ns t sy u vm)"
    and "get_time (set_time epoch_ns t sy u vm) = (epoch_ns, t, sy, u)"
    by (simp_all add: has_time_def get_time_def set_time_def)
  with get_usage_cpu_no_sample [OF assms] show ?thesis by simp
qed

theorem get_usage_cpu_first_call_witness:
  "\<not> has_time fresh_entity \<and>
   get_usage_cpu [''u1'' \<mapsto> running_domain] 2000000000 fresh_entity =
     Inr (None, set_time 2000000000 1000000000 10 20 fresh_entity) \<and>
   get_time (set_time 2000000000 1000000000 10 20 fresh_entity) =
     (2000000000, 1000000000, 10, 20)"
proof -
  let ?st = "[''cpu_time'' \<mapsto> 1000000000, ''system_time'' \<mapsto> 10, ''user_time'' \<mapsto> (20::nat)]"
  have 1: "\<not> has_time fresh_entity"
    by (simp add: has_time_def fresh_entity_def new_DomainEntity_def)
  have 2: "lookupByUUIDString [''u1'' \<mapsto> running_domain] (get_uuid fresh_entity) = Inr running_domain"
    by (simp add: lookupByUUIDString_def get_uuid_def fresh_entity_def new_DomainEntity_def)
  have 3: "getCPUStats running_domain = Some (?st # [])"
    by (simp add: running_domain_def)
  have 4: "?st ''cpu_time'' = Some 1000000000" "?st ''system_time'' = Some 10"
    "?st ''user_time'' = Some 20" by simp_all
  from get_usage_cpu_first_call [OF 1 2 3 4, of 2000000000] 1 show ?thesis by simp
qed



text \<open>
  The lookup stands before the \<^verbatim>\<open>try\<close>: when it raises, that error is what the caller
  sees.
\<close>

lemma get_usage_lookup_fails:
  assumes "lookupByUUIDString conn (get_uuid vm) = Inl e"
  shows "get_usage_cpu conn epoch_ns vm = Inl e \<and> get_usage_mem conn vm = Inl e"
  using assms by (simp add: get_usage_cpu_def get_usage_mem_def bind_err_def)

text \<open>
  Claim C9.  With the counters \<open>rss\<close> and \<open>actual\<close> read from the VM, \<open>get_usage_mem\<close>
  returns \<open>rss / actual\<close> clamped to at most \<open>1\<close>, whether \<open>rss \<le> actual\<close> or not, and
  that value lies in \<open>[0, 1]\<close>.  The one call that reads both counters and does not
  return is the division by \<open>actual = 0\<close>.
\<close>

theorem get_usage_mem_clamped:
  assumes "lookupByUUIDString conn (get_uuid vm) = Inr d"
    and "memoryStats d = Some st"
    and "st ''rss'' = Some rss" and "st ''actual'' = Some actual"
  shows "get_usage_mem conn vm =
           (if actual = 0 then Inl ZeroDivisionError
            else Inr (min 1 (of_nat rss / of_nat actual))) \<and>
         0 \<le> min 1 (of_nat rss / of_nat actual :: rat) \<and>
         min 1 (of_nat rss / of_nat actual :: rat) \<le> 1"
  using assms by (simp add: usage_defs min_def)

theorem get_usage_mem_clamped_witness:
  "get_usage_mem [''u1'' \<mapsto> running_domain] fresh_entity = Inr 1 \<and>
   get_usage_mem [''u1'' \<mapsto> running_domain\<lparr>memoryStats := Some [''actual'' \<mapsto> 1024, ''rss'' \<mapsto> 256]\<rparr>]
     fresh_entity = Inr (1 / 4)"
proof -
  let ?d2 = "running_domain\<lparr>memoryStats := Some [''actual'' \<mapsto> 1024, ''rss'' \<mapsto> 256]\<rparr>"
  have 1: "lookupByUUIDString [''u1'' \<mapsto> running_domain] (get_uuid fresh_entity) = Inr running_domain"
    by (simp add: lookupByUUIDString_def get_uuid_def fresh_entity_def new_DomainEntity_def)
  have 2: "memoryStats running_domain = Some [''actual'' \<mapsto> 1024, ''rss'' \<mapsto> 2048]"
    by (simp add: running_domain_def)
  have 3: "[''actual'' \<mapsto> 1024, ''rss'' \<mapsto> (2048::nat)] ''rss'' = Some 2048"
    "[''actual'' \<mapsto> 1024, ''rss'' \<mapsto> (2048::nat)] ''actual'' = Some 1024" by simp_all
  have 4: "lookupByUUIDString [''u1'' \<mapsto> ?d2] (get_uuid fresh_entity) = Inr ?d2"
    by (simp add: lookupByUUIDString_def get_uuid_def fresh_entity_def new_DomainEntity_def)
  have 5: "memoryStats ?d2 = Some [''actual'' \<mapsto> 1024, ''rss'' \<mapsto> 256]" by simp
  have 6: "[''actual'' \<mapsto> 1024, ''rss'' \<mapsto> (256::nat)] ''rss'' = Some 256"
    "[''actual'' \<mapsto> 1024, ''rss'' \<mapsto> (256::nat)] ''actual'' = Some 1024" by simp_all
  from get_usage_mem_clamped [OF 1 2 3] get_usage_mem_clamped [OF 4 5 6]
  show ?thesis by simp
qed

section \<open>Properties of the pinning update\<close>

lemma update_needed_iff: "update_needed vm_pin t = (\<exists>m \<in> set vm_pin. m \<noteq> t)"
  by (induction vm_pin) auto

lemma pin_vcpus_map: "pin_vcpus vs t = map (\<lambda>vcpu. (vcpu, t)) vs"
  by (induction vs) auto

text \<open>
  Claim C3.  For the VM the lookup returns: when every vCPU's mask as read equals the
  template, no \<^verbatim>\<open>pinVcpu\<close> is issued; when some mask differs, exactly one
  \<^verbatim>\<open>pinVcpu(vcpu, template_pin)\<close> is issued for each vCPU, in the order of the vCPUs.
\<close>

theorem update_cpu_pinning_writes:
  assumes "lookupByUUIDString conn (get_uuid vm) = Inr d"
  shows "((\<forall>m \<in> set (vcpuPinInfo d). m = t) \<longrightarrow> update_cpu_pinning conn vm t = Inr []) \<and>
         ((\<exists>m \<in> set (vcpuPinInfo d). m \<noteq> t) \<longrightarrow>
            update_cpu_pinning conn vm t =
              Inr (map (\<lambda>vcpu. (vcpu, t)) [0..<length (vcpuPinInfo d)]))"
  using assms
  by (auto simp: update_cpu_pinning_def bind_err_def update_needed_iff pin_vcpus_map Let_def)

theorem update_cpu_pinning_writes_witness:
  "update_cpu_pinning [''u1'' \<mapsto> running_domain] fresh_entity [True, True, False, False] =
     Inr [(0, [True, True, False, False]), (1, [True, True, False, False])] \<and>
   update_cpu_pinning [''u1'' \<mapsto> running_domain\<lparr>vcpuPinInfo := [[True, False], [True, False]]\<rparr>]
     fresh_entity [True, False] = Inr []"
proof -
  let ?d2 = "running_domain\<lparr>vcpuPinInfo := [[True, False], [True, False]]\<rparr>"
  have 1: "lookupByUUIDString [''u1'' \<mapsto> running_domain] (get_uuid fresh_entity) = Inr running_domain"
    by (simp add: lookupByUUIDString_def get_uuid_def fresh_entity_def new_DomainEntity_def)
  have 2: "\<exists>m \<in> set (vcpuPinInfo running_domain). m \<noteq> [True, True, False, False]"
    by (simp add: running_domain_def)
  have 3: "lookupByUUIDString [''u1'' \<mapsto> ?d2] (get_uuid fresh_entity) = Inr ?d2"
    by (simp add: lookupByUUIDString_def get_uuid_def fresh_entity_def new_DomainEntity_def)
  have 4: "\<forall>m \<in> set (vcpuPinInfo ?d2). m = [True, False]" by simp
  have 5: "[0..<length (vcpuPinInfo running_domain)] = [0, 1]"
    by (simp add: running_domain_def upt_rec)
  from update_cpu_pinning_writes [OF 1, of "[True, True, False, False]"] 2
       update_cpu_pinning_writes [OF 3, of "[True, False]"] 4 5
  show ?thesis by simp
qed

section \<open>Properties of entity resolution\<close>

lemmas convert_defs =
  convert_to_entitydomain_def emit_def convert_to_object_def updated_def
  convert_to_str_xml_def get_oversub_ratios_def new_events_def Let_def

lemma convert_cached:
  assumes "cache_entity s (UUIDString d) = Some r"
  shows "convert_to_entitydomain dflt d False s = (r, emit [Call ''UUIDString''] s)"
  using assms by (simp add: convert_to_entitydomain_def emit_def Let_def)

lemma convert_fresh:
  assumes "f \<or> cache_entity s (UUIDString d) = None"
    and "convert_to_entitydomain dflt d f s = (r, s')"
  shows "r = length (heap s)"
    and "cache_entity s' = (cache_entity s)(UUIDString d \<mapsto> r)"
    and "heap s' = heap s @ [new_DomainEntity (UUIDString d) (domain_name d) (maxMemory d)
            (maxVcpus d) (vcpuPinInfo d)
            (case oversub_cpu (XMLDesc d) of None \<Rightarrow> dflt | Some x \<Rightarrow> x)]"
    and "handle_calls (new_events s s') =
           [''UUIDString'', ''name'', ''maxMemory'', ''maxVcpus'', ''vcpuPinInfo'', ''XMLDesc'']"
    and "descriptor_writes (new_events s s') =
           (case oversub_cpu (XMLDesc d) of
              None \<Rightarrow> [(XMLDesc d)\<lparr>oversub_cpu := Some dflt\<rparr>] | Some x \<Rightarrow> [])"
    and "warnings (new_events s s') =
           (case oversub_cpu (XMLDesc d) of
              None \<Rightarrow> [[''Warning, no oversubscription found on domain'', domain_name d,
                         '': defaults were generated'']]
            | Some x \<Rightarrow> [])"
  using assms by (auto simp: convert_defs split: option.splits)

lemma convert_caches:
  assumes "cached_ref_valid s (UUIDString d)"
    and "convert_to_entitydomain dflt d f s = (r, s')"
  shows "cache_entity s' (UUIDString d) = Some r" and "r < length (heap s')"
  using assms
  by (auto simp: convert_defs cached_ref_valid_def split: if_splits option.splits)


text \<open>
  Claim C4.  After any resolution of a handle, a second resolution of the same uuid
  without \<open>force_update\<close> returns the same reference, leaves cache and heap as they
  were, and calls nothing on the handle but \<^verbatim>\<open>UUIDString()\<close>.  With \<open>force_update\<close> it
  reads the handle again, builds a new object (a new reference, the older objects
  untouched) from what the handle answers, and the cache entry of the uuid now refers
  to the new object.
\<close>

theorem convert_to_entitydomain_cache:
  assumes "cached_ref_valid s (UUIDString d)"
    and "convert_to_entitydomain dflt d f s = (r1, s1)"
    and "UUIDString d' = UUIDString d"
    and "convert_to_entitydomain dflt d' False s1 = (r2, s2)"
    and "convert_to_entitydomain dflt d' True s1 = (r3, s3)"
  shows "r2 = r1 \<and> heap s2 = heap s1 \<and> cache_entity s2 = cache_entity s1 \<and>
         handle_calls (new_events s1 s2) = [''UUIDString''] \<and>
         descriptor_writes (new_events s1 s2) = [] \<and> warnings (new_events s1 s2) = [] \<and>
         r3 \<noteq> r1 \<and> r3 = length (heap s1) \<and>
         cache_entity s3 = (cache_entity s1)(UUIDString d' \<mapsto> r3) \<and>
         heap s3 = heap s1 @ [new_DomainEntity (UUIDString d') (domain_name d')
            (maxMemory d') (maxVcpus d') (vcpuPinInfo d')
            (case oversub_cpu (XMLDesc d') of None \<Rightarrow> dflt | Some x \<Rightarrow> x)] \<and>
         handle_calls (new_events s1 s3) =
           [''UUIDString'', ''name'', ''maxMemory'', ''maxVcpus'', ''vcpuPinInfo'', ''XMLDesc'']"
proof -
  from convert_caches [OF assms(1,2)]
  have c: "cache_entity s1 (UUIDString d') = Some r1" and r1: "r1 < length (heap s1)"
    by (simp_all add: assms(3))
  from convert_cached [OF c, of dflt] assms(4)
  have hit: "r2 = r1" "s2 = emit [Call ''UUIDString''] s1" by simp_all
  have forced: "True \<or> cache_entity s1 (UUIDString d') = None" by simp
  note fresh = convert_fresh [OF forced assms(5)]
  from fresh(1) r1 have "r3 \<noteq> r1" by simp
  with hit fresh show ?thesis by (simp add: emit_def new_events_def)
qed

theorem convert_to_entitydomain_cache_witness:
  "cached_ref_valid empty_adapter (UUIDString running_domain) \<and>
   fst (convert_to_entitydomain 3 running_domain False empty_adapter) = 0 \<and>
   fst (convert_to_entitydomain 3 running_domain False
          (snd (convert_to_entitydomain 3 running_domain False empty_adapter))) = 0 \<and>
   fst (convert_to_entitydomain 3 running_domain True
          (snd (convert_to_entitydomain 3 running_domain False empty_adapter))) = 1"
proof -
  obtain r1 s1 where 1: "convert_to_entitydomain 3 running_domain False empty_adapter = (r1, s1)"
    by (cases "convert_to_entitydomain 3 running_domain False empty_adapter")
  obtain r2 s2 where 2: "convert_to_entitydomain 3 running_domain False s1 = (r2, s2)"
    by (cases "convert_to_entitydomain 3 running_domain False s1")
  obtain r3 s3 where 3: "convert_to_entitydomain 3 running_domain True s1 = (r3, s3)"
    by (cases "convert_to_entitydomain 3 running_domain True s1")
  have v: "cached_ref_valid empty_adapter (UUIDString running_domain)"
    by (simp add: cached_ref_valid_def empty_adapter_def)
  have r1: "r1 = 0" and h1: "length (heap s1) = 1"
    using 1 by (auto simp: convert_defs empty_adapter_def)
  from convert_to_entitydomain_cache [OF v 1 refl 2 3] r1 h1
  have "r2 = 0" "r3 = 1" by simp_all
  with v 1 2 3 r1 show ?thesis by simp
qed

text \<open>
  Claim C6.  A resolution that is not answered from the cache (\<open>force_update\<close>, or the
  uuid is not cached) of a VM whose descriptor has no oversubscription ratio yields an
  entity that carries the generated default, issues exactly one \<^verbatim>\<open>defineXML\<close> (of the
  descriptor completed with the default) and prints exactly one warning, which names
  the VM.  In every other case (answered from the cache, or the ratio is present) there
  is no descriptor write and no warning.
\<close>

theorem convert_to_entitydomain_default_ratio:
  assumes "convert_to_entitydomain dflt d f s = (r, s')"
  shows "((f \<or> cache_entity s (UUIDString d) = None) \<and> oversub_cpu (XMLDesc d) = None \<longrightarrow>
            ent_cpu_ratio (heap s' ! r) = dflt \<and>
            descriptor_writes (new_events s s') = [(XMLDesc d)\<lparr>oversub_cpu := Some dflt\<rparr>] \<and>
            warnings (new_events s s') =
              [[''Warning, no oversubscription found on domain'', domain_name d,
                '': defaults were generated'']]) \<and>
         (\<not> ((f \<or> cache_entity s (UUIDString d) = None) \<and> oversub_cpu (XMLDesc d) = None) \<longrightarrow>
            descriptor_writes (new_events s s') = [] \<and> warnings (new_events s s') = [])"
proof (cases "f \<or> cache_entity s (UUIDString d) = None")
  case True
  note fresh = convert_fresh [OF True assms]
  show ?thesis
  proof (cases "oversub_cpu (XMLDesc d)")
    case None
    with True fresh show ?thesis by (simp add: new_DomainEntity_def)
  next
    case (Some x)
    with fresh show ?thesis by simp
  qed
next
  case False
  then obtain r0 where "cache_entity s (UUIDString d) = Some r0" and "\<not> f" by auto
  from convert_cached [OF this(1), of dflt] assms \<open>\<not> f\<close>
  have "s' = emit [Call ''UUIDString''] s" by simp
  with False show ?thesis by (simp add: emit_def new_events_def)
qed

theorem convert_to_entitydomain_default_ratio_witness:
  "oversub_cpu (XMLDesc running_domain) = None \<and>
   cache_entity empty_adapter (UUIDString running_domain) = None \<and>
   (case convert_to_entitydomain 3 running_domain False empty_adapter of (r, s') \<Rightarrow>
      ent_cpu_ratio (heap s' ! r) = 3 \<and>
      descriptor_writes (new_events empty_adapter s') =
        [\<lparr>xml_text = ''domain'', oversub_cpu = Some 3\<rparr>] \<and>
      warnings (new_events empty_adapter s') =
        [[''Warning, no oversubscription found on domain'', ''vm1'',
          '': defaults were generated'']]) \<and>
   (case convert_to_entitydomain 3 running_domain False sampled_adapter of (r, s') \<Rightarrow>
      descriptor_writes (new_events sampled_adapter s') = [] \<and>
      warnings (new_events sampled_adapter s') = [])"
proof -
  obtain r1 s1 where 1: "convert_to_entitydomain 3 running_domain False empty_adapter = (r1, s1)"
    by (cases "convert_to_entitydomain 3 running_domain False empty_adapter")
  obtain r2 s2 where 2: "convert_to_entitydomain 3 running_domain False sampled_adapter = (r2, s2)"
    by (cases "convert_to_entitydomain 3 running_domain False sampled_adapter")
  have a: "oversub_cpu (XMLDesc running_domain) = None"
    "cache_entity empty_adapter (UUIDString running_domain) = None"
    "XMLDesc running_domain = \<lparr>xml_text = ''domain'', oversub_cpu = None\<rparr>"
    "domain_name running_domain = ''vm1''"
    "cache_entity sampled_adapter (UUIDString running_domain) = Some 0"
    by (simp_all add: running_domain_def empty_adapter_def sampled_adapter_def)
  from convert_to_entitydomain_default_ratio [OF 1] convert_to_entitydomain_default_ratio [OF 2] a
  show ?thesis by (simp add: 1 2)
qed


text \<open>
  Claim C10.  The cache refers to an entity that holds a sample.  A resolution with
  \<open>force_update\<close> makes the cache refer to a new object, built from what the handle
  answers and holding no sample; the older object keeps its sample but is no longer the
  cached one.  The next \<open>get_usage_cpu\<close> on the new object, on a running VM, returns
  \<^verbatim>\<open>None\<close> and stores the first sample of the new object.
\<close>

theorem force_update_discards_sample:
  assumes "cache_entity s (UUIDString d) = Some r" and "r < length (heap s)"
    and "has_time (heap s ! r)"
    and "convert_to_entitydomain dflt d True s = (r', s')"
    and "lookupByUUIDString conn (UUIDString d) = Inr d2"
    and "getCPUStats d2 = Some (st # rest)"
    and "st ''cpu_time'' = Some t" and "st ''system_time'' = Some sy"
    and "st ''user_time'' = Some u"
  shows "r' \<noteq> r \<and> cache_entity s' (UUIDString d) = Some r' \<and>
         \<not> has_time (heap s' ! r') \<and>
         get_cpu (heap s' ! r') = maxVcpus d \<and> ent_mem (heap s' ! r') = maxMemory d \<and>
         ent_cpu_pin (heap s' ! r') = vcpuPinInfo d \<and>
         heap s' ! r = heap s ! r \<and>
         get_usage_cpu_at conn epoch_ns r' s' =
           Inr (None, s'\<lparr>heap := (heap s')[r' := set_time epoch_ns t sy u (heap s' ! r')]\<rparr>)"
proof -
  have forced: "True \<or> cache_entity s (UUIDString d) = None" by simp
  note fresh = convert_fresh [OF forced assms(4)]
  let ?e = "heap s' ! r'"
  from fresh(1,3) have e: "?e = new_DomainEntity (UUIDString d) (domain_name d) (maxMemory d)
            (maxVcpus d) (vcpuPinInfo d)
            (case oversub_cpu (XMLDesc d) of None \<Rightarrow> dflt | Some x \<Rightarrow> x)"
    by simp
  then have no_sample: "\<not> has_time ?e" and uuid: "get_uuid ?e = UUIDString d"
    and fields: "get_cpu ?e = maxVcpus d" "ent_mem ?e = maxMemory d"
      "ent_cpu_pin ?e = vcpuPinInfo d"
    by (simp_all add: new_DomainEntity_def has_time_def get_uuid_def get_cpu_def)
  from assms(5) uuid have look: "lookupByUUIDString conn (get_uuid ?e) = Inr d2" by simp
  from get_usage_cpu_no_sample [OF no_sample look assms(6-9), of epoch_ns]
  have usage: "get_usage_cpu_at conn epoch_ns r' s' =
           Inr (None, s'\<lparr>heap := (heap s')[r' := set_time epoch_ns t sy u ?e]\<rparr>)"
    by (simp add: get_usage_cpu_at_def bind_err_def)
  from fresh(1) assms(2) have "r' \<noteq> r" by simp
  moreover from fresh(2) have "cache_entity s' (UUIDString d) = Some r'" by simp
  moreover from fresh(3) assms(2) have "heap s' ! r = heap s ! r" by (simp add: nth_append)
  ultimately show ?thesis using no_sample fields usage by simp
qed

theorem force_update_discards_sample_witness:
  "cache_entity sampled_adapter (UUIDString running_domain) = Some 0 \<and>
   has_time (heap sampled_adapter ! 0) \<and>
   (case convert_to_entitydomain 3 running_domain True sampled_adapter of (r', s') \<Rightarrow>
      r' = 1 \<and> cache_entity s' ''u1'' = Some 1 \<and> \<not> has_time (heap s' ! 1) \<and>
      heap s' ! 0 = sampled_entity \<and>
      map_sum id fst (get_usage_cpu_at [''u1'' \<mapsto> running_domain] 2000000000 1 s') = Inr None)"
proof -
  obtain r' s' where 1: "convert_to_entitydomain 3 running_domain True sampled_adapter = (r', s')"
    by (cases "convert_to_entitydomain 3 running_domain True sampled_adapter")
  let ?st = "[''cpu_time'' \<mapsto> 1000000000, ''system_time'' \<mapsto> 10, ''user_time'' \<mapsto> (20::nat)]"
  have a: "cache_entity sampled_adapter (UUIDString running_domain) = Some 0"
    "0 < length (heap sampled_adapter)" "has_time (heap sampled_adapter ! 0)"
    by (simp_all add: sampled_adapter_def running_domain_def sampled_entity_def set_time_def
        has_time_def)
  have b: "lookupByUUIDString [''u1'' \<mapsto> running_domain] (UUIDString running_domain) =
             Inr running_domain"
    by (simp add: lookupByUUIDString_def running_domain_def)
  have c: "getCPUStats running_domain = Some (?st # [])" by (simp add: running_domain_def)
  have d: "?st ''cpu_time'' = Some 1000000000" "?st ''system_time'' = Some 10"
    "?st ''user_time'' = Some 20" by simp_all
  have e: "r' = 1" using 1 by (auto simp: convert_defs sampled_adapter_def)
  have f: "UUIDString running_domain = ''u1''" "heap sampled_adapter ! 0 = sampled_entity"
    by (simp_all add: running_domain_def sampled_adapter_def)
  from force_update_discards_sample [OF a 1 b c d, of 2000000000] a e f
  show ?thesis by (simp add: 1)
qed

section \<open>Properties of the control loop\<close>







end
